theory Spec2Isabelle
  imports Main "HOL-Library.AList"
begin

section \<open>Shared data model\<close>

text \<open>
  The three programs exchange JSON objects over HTTP and keep them in Python dicts
  and lists. A dict whose keys the code iterates or updates is an association list
  (insertion order, as in Python), read with \<open>map_of\<close> and written with
  \<open>AList.update\<close>. Every \<open>datetime.now()\<close> is a parameter: a clock reading in
  microseconds. \<open>uuid.uuid4()\<close> and \<open>secrets.*\<close> are parameters as well.
\<close>

type_synonym timestamp = int

text \<open>The opaque result body an agent posts (a JSON object).\<close>

type_synonym result = "(string \<times> string) list"

text \<open>\<open>raise HTTPException(status_code=..., detail=...)\<close>.\<close>

datatype http_error = HTTPException nat string

text \<open>
  The sub-task dict \<open>task_data\<close> built by \<open>create_task\<close> in
  \<open>netpulse/backend/main.py\<close> and queued by the agent server. The old single-check
  tasks of \<open>TaskManager.create_task\<close> have no \<open>parent_task_id\<close> key.
\<close>

record task =
  t_id :: string
  t_parent_task_id :: "string option"
  t_target :: string
  t_check_type :: string
  t_country :: string
  t_status :: string
  t_created_at :: timestamp
  t_assigned_agent :: "string option"
  t_result :: "result option"
  t_agent_server :: string

section \<open>The agent server (\<open>agent_server/server_agent.py\<close>)\<close>

text \<open>\<open>agent_data\<close> of \<open>AgentManager.create_agent\<close>.\<close>

record agent =
  a_id :: string
  a_name :: string
  a_country :: string
  a_token :: string
  a_capabilities :: "string list"
  a_status :: string
  a_current_tasks :: int
  a_max_tasks :: int
  a_created_at :: timestamp
  a_last_heartbeat :: timestamp

text \<open>The module globals \<open>agents_db\<close>, \<open>tasks_queue\<close> and \<open>task_results\<close>.\<close>

record server =
  agents_db :: "(string \<times> agent) list"
  tasks_queue :: "task list"
  task_results :: "(string \<times> result) list"

definition CONFIG_country :: string where
  "CONFIG_country = ''ru''"


definition init_server :: server where
  "init_server = \<lparr>agents_db = [], tasks_queue = [], task_results = []\<rparr>"

text \<open>What an endpoint returns with status 200: a status object or a task dict.\<close>

datatype response = StatusOnly string | TaskBody task

definition default_capabilities :: "string list" where
  "default_capabilities = [''http'', ''ping'', ''tcp'', ''dns'']"

text \<open>
  \<open>AgentManager.create_agent\<close>. \<open>hex4\<close> and \<open>hex16\<close> are the values of
  \<open>secrets.token_hex(4)\<close> and \<open>secrets.token_hex(16)\<close>. The worker thread it starts
  is a client of the two agent endpoints below and is not part of the state.
\<close>

definition create_agent ::
  "server \<Rightarrow> string \<Rightarrow> string list option \<Rightarrow> string \<Rightarrow> string \<Rightarrow> timestamp \<Rightarrow> server \<times> agent" where
  "create_agent s name caps hex4 hex16 now =
     (let capabilities = (case caps of None \<Rightarrow> default_capabilities | Some cs \<Rightarrow> cs);
          agent_id = ''agent-'' @ CONFIG_country @ ''-'' @ hex4;
          agent_data = \<lparr>a_id = agent_id, a_name = name, a_country = CONFIG_country,
                        a_token = hex16, a_capabilities = capabilities,
                        a_status = ''online'', a_current_tasks = 0, a_max_tasks = 5,
                        a_created_at = now, a_last_heartbeat = now\<rparr>
      in (s\<lparr>agents_db := AList.update agent_id agent_data (agents_db s)\<rparr>, agent_data))"

definition get_agent :: "server \<Rightarrow> string \<Rightarrow> agent option" where
  "get_agent s agent_id = map_of (agents_db s) agent_id"

definition verify_agent :: "server \<Rightarrow> string \<Rightarrow> string \<Rightarrow> bool" where
  "verify_agent s agent_id token =
     (case map_of (agents_db s) agent_id of
        None \<Rightarrow> False
      | Some agent \<Rightarrow> a_token agent = token)"



text \<open>
  \<open>TaskManager.get_pending_task_for_agent\<close>. The Python returns a reference to the
  first matching dict of \<open>tasks_queue\<close>; the model returns its position, so that the
  caller reads the very entry the loop stopped at.
\<close>

fun get_pending_task_for_agent :: "string list \<Rightarrow> task list \<Rightarrow> nat option" where
  "get_pending_task_for_agent agent_capabilities [] = None"
| "get_pending_task_for_agent agent_capabilities (t # ts) =
     (if t_status t = ''pending'' \<and> t_check_type t \<in> set agent_capabilities
      then Some 0
      else map_option Suc (get_pending_task_for_agent agent_capabilities ts))"

text \<open>
  \<open>TaskManager.update_task_status\<close>: the first entry with the given id gets the
  status, and the agent id when one is given and is not the empty string
  (\<open>if agent_id:\<close>); the loop stops there (\<open>break\<close>). No entry with that id: nothing
  happens.
\<close>

fun update_task_status :: "string \<Rightarrow> string \<Rightarrow> string option \<Rightarrow> task list \<Rightarrow> task list" where
  "update_task_status task_id status agent_id [] = []"
| "update_task_status task_id status agent_id (t # ts) =
     (if t_id t = task_id
      then (case agent_id of
              None \<Rightarrow> t\<lparr>t_status := status\<rparr>
            | Some a \<Rightarrow> (if a = [] then t\<lparr>t_status := status\<rparr>
                        else t\<lparr>t_status := status, t_assigned_agent := Some a\<rparr>)) # ts
      else t # update_task_status task_id status agent_id ts)"


text \<open>\<open>GET /agent/pending-task\<close> (PollTask).\<close>

definition get_pending_task ::
  "server \<Rightarrow> string \<Rightarrow> string \<Rightarrow> timestamp \<Rightarrow> http_error + (server \<times> response)" where
  "get_pending_task s agent_id agent_token now =
     (if \<not> verify_agent s agent_id agent_token
      then Inl (HTTPException 401 ''Invalid agent credentials'')
      else case get_agent s agent_id of
        None \<Rightarrow> Inr (s, StatusOnly ''offline'')
      | Some agent \<Rightarrow>
          if a_status agent \<noteq> ''online'' then Inr (s, StatusOnly ''offline'')
          else if a_current_tasks agent \<ge> a_max_tasks agent then Inr (s, StatusOnly ''busy'')
          else (case get_pending_task_for_agent (a_capabilities agent) (tasks_queue s) of
                  Some i \<Rightarrow>
                    (let queue = update_task_status (t_id (tasks_queue s ! i)) ''assigned''
                                   (Some agent_id) (tasks_queue s);
                         agent' = agent\<lparr>a_current_tasks := a_current_tasks agent + 1,
                                        a_last_heartbeat := now\<rparr>
                     in Inr (s\<lparr>tasks_queue := queue,
                               agents_db := AList.update agent_id agent' (agents_db s)\<rparr>,
                             TaskBody (queue ! i)))
                | None \<Rightarrow> Inr (s, StatusOnly ''no_tasks'')))"

text \<open>\<open>POST /agent/submit-result\<close> (SubmitResult).\<close>

definition submit_result ::
  "server \<Rightarrow> string \<Rightarrow> string \<Rightarrow> string \<Rightarrow> result \<Rightarrow> http_error + (server \<times> response)" where
  "submit_result s task_id agent_id agent_token res =
     (if \<not> verify_agent s agent_id agent_token
      then Inl (HTTPException 401 ''Invalid agent credentials'')
      else
        (let queue = update_task_status task_id ''completed'' None (tasks_queue s);
             db = (case get_agent s agent_id of
                     None \<Rightarrow> agents_db s
                   | Some agent \<Rightarrow>
                       AList.update agent_id
                         (agent\<lparr>a_current_tasks := max 0 (a_current_tasks agent - 1)\<rparr>)
                         (agents_db s))
         in Inr (s\<lparr>tasks_queue := queue, agents_db := db,
                   task_results := AList.update task_id res (task_results s)\<rparr>,
                 StatusOnly ''success'')))"

text \<open>
  The dispatch operations an agent performs, and a run of them. A request that raises
  (401) leaves the state as it was.
\<close>

datatype dispatch_op =
    PollTask string string timestamp
  | SubmitResult string string string result

fun step :: "server \<Rightarrow> dispatch_op \<Rightarrow> server" where
  "step s (PollTask agent_id agent_token now) =
     (case get_pending_task s agent_id agent_token now of
        Inl e \<Rightarrow> s
      | Inr (s', r) \<Rightarrow> s')"
| "step s (SubmitResult task_id agent_id agent_token res) =
     (case submit_result s task_id agent_id agent_token res of
        Inl e \<Rightarrow> s
      | Inr (s', r) \<Rightarrow> s')"

fun run :: "server \<Rightarrow> dispatch_op list \<Rightarrow> server" where
  "run s [] = s"
| "run s (e # es) = run (step s e) es"


text \<open>
  The condition of the scan in \<open>get_pending_task_for_agent\<close>, named: a sub-task is
  eligible for a capability list when it is pending and its check type is an element
  of the list.
\<close>

definition eligible :: "string list \<Rightarrow> task \<Rightarrow> bool" where
  "eligible agent_capabilities t =
     (t_status t = ''pending'' \<and> t_check_type t \<in> set agent_capabilities)"

text \<open>The load bound of every agent record: \<open>0 \<le> current_tasks \<le> max_tasks\<close>.\<close>

definition agents_ok :: "server \<Rightarrow> bool" where
  "agents_ok s =
     list_all (\<lambda>(k, a). 0 \<le> a_current_tasks a \<and> a_current_tasks a \<le> a_max_tasks a)
       (agents_db s)"


section \<open>The coordinator (\<open>netpulse/backend/main.py\<close>)\<close>

text \<open>
  The Redis the coordinator talks to: string keys holding the JSON of a task, and
  list keys. \<open>AGENT_SERVERS\<close> maps a country to the URL and the token of its agent
  server.
\<close>

record redis =
  kv :: "(string \<times> task) list"
  lists :: "(string \<times> string list) list"

definition AGENT_SERVERS :: "(string \<times> string \<times> string) list" where
  "AGENT_SERVERS = [(''ru'', ''http://localhost:8001'', ''ru-server-secret-token-12345'')]"

definition all_check_types :: "string list" where
  "all_check_types =
     [''http'', ''https'', ''ping'', ''tcp'', ''traceroute'',
      ''dns_a'', ''dns_aaaa'', ''dns_mx'', ''dns_ns'', ''dns_txt'']"

definition redis_set :: "redis \<Rightarrow> string \<Rightarrow> task \<Rightarrow> redis" where
  "redis_set r key v = r\<lparr>kv := AList.update key v (kv r)\<rparr>"

definition redis_get :: "redis \<Rightarrow> string \<Rightarrow> task option" where
  "redis_get r key = map_of (kv r) key"

definition lrange :: "redis \<Rightarrow> string \<Rightarrow> string list" where
  "lrange r key = (case map_of (lists r) key of None \<Rightarrow> [] | Some xs \<Rightarrow> xs)"

text \<open>\<open>LPUSH\<close> puts the value at the head of the list.\<close>

definition lpush :: "redis \<Rightarrow> string \<Rightarrow> string \<Rightarrow> redis" where
  "lpush r key x = r\<lparr>lists := AList.update key (x # lrange r key) (lists r)\<rparr>"

definition startswith :: "string \<Rightarrow> string \<Rightarrow> bool" where
  "startswith s p = (take (length p) s = p)"

text \<open>\<open>scan_iter("task:*")\<close>: the string keys that begin with \<open>task:\<close>, in store order.\<close>

definition scan_iter_task :: "redis \<Rightarrow> string list" where
  "scan_iter_task r = filter (\<lambda>key. startswith key ''task:'') (map fst (kv r))"

text \<open>
  \<open>key.replace("task:", "")\<close>: Python removes every occurrence of \<open>task:\<close>, scanning
  from the left, not only the leading one.
\<close>

fun replace_task :: "string \<Rightarrow> string" where
  "replace_task [] = []"
| "replace_task (c # cs) =
     (if startswith (c # cs) ''task:'' then replace_task (drop 4 cs)
      else c # replace_task cs)"

definition secrets_choice :: "nat \<Rightarrow> 'a list \<Rightarrow> 'a" where
  "secrets_choice rnd xs = xs ! (rnd mod length xs)"

text \<open>\<open>TaskManager.get_task\<close>.\<close>

definition get_task :: "redis \<Rightarrow> string \<Rightarrow> task option" where
  "get_task r task_id = redis_get r (''task:'' @ task_id)"

text \<open>
  The body of the loop of \<open>create_task\<close> for one check type: the sub-task dict, the
  two Redis writes, and the POST to the agent server. The POST is an outbound
  message (URL, token, body): whether it arrives or raises, the handler carries on
  with the same state, so the model records it as sent. \<open>now_at\<close> is the clock
  reading of each round.
\<close>

definition sub_task_id :: "string \<Rightarrow> string \<Rightarrow> string" where
  "sub_task_id task_id check_type = task_id @ ''-'' @ check_type"

definition sub_task_data :: "string \<Rightarrow> string \<Rightarrow> string \<Rightarrow> (string \<Rightarrow> timestamp) \<Rightarrow> string \<Rightarrow> task" where
  "sub_task_data task_id target country now_at check_type =
     \<lparr>t_id = sub_task_id task_id check_type,
      t_parent_task_id = Some task_id,
      t_target = target,
      t_check_type = check_type,
      t_country = country,
      t_status = ''pending'',
      t_created_at = now_at check_type,
      t_assigned_agent = None,
      t_result = None,
      t_agent_server = country\<rparr>"

fun fan_out ::
  "string \<Rightarrow> string \<Rightarrow> string \<Rightarrow> (string \<Rightarrow> timestamp) \<Rightarrow> string list \<Rightarrow>
   redis \<times> string list \<times> task list \<Rightarrow> redis \<times> string list \<times> task list" where
  "fan_out task_id target country now_at [] acc = acc"
| "fan_out task_id target country now_at (check_type # rest) (r, sub_tasks, sent) =
     (let task_data = sub_task_data task_id target country now_at check_type;
          r1 = redis_set r (''task:'' @ t_id task_data) task_data;
          r2 = lpush r1 (''queue:'' @ country) (t_id task_data)
      in fan_out task_id target country now_at rest
           (r2, sub_tasks @ [t_id task_data], sent @ [task_data]))"

text \<open>
  The JSON \<open>create_task\<close> returns, without its \<open>message\<close> (a fixed sentence with the
  target appended).
\<close>

record create_response =
  cr_status :: string
  cr_task_id :: string
  cr_target :: string
  cr_country :: string
  cr_check_types :: "string list"
  cr_sub_tasks :: "string list"
  cr_agent_server :: string

text \<open>
  \<open>POST /tasks\<close>. \<open>uuid\<close> is the value of \<open>uuid.uuid4()\<close> and \<open>rnd\<close> the draw of
  \<open>secrets.choice\<close>. The third component of the result lists the sub-tasks posted
  to the agent server of the country.
\<close>

definition create_task ::
  "redis \<Rightarrow> string \<Rightarrow> nat \<Rightarrow> (string \<Rightarrow> timestamp) \<Rightarrow> string \<Rightarrow> string \<Rightarrow>
   http_error + (redis \<times> create_response \<times> task list)" where
  "create_task r uuid rnd now_at target country0 =
     (let country = (if country0 = ''auto'' then secrets_choice rnd (map fst AGENT_SERVERS)
                     else country0)
      in case map_of AGENT_SERVERS country of
           None \<Rightarrow> Inl (HTTPException 400 (''No agent server for country: '' @ country))
         | Some (url, token) \<Rightarrow>
             (case fan_out uuid target country now_at all_check_types (r, [], []) of
                (r', sub_tasks, sent) \<Rightarrow>
                  Inr (r',
                       \<lparr>cr_status = ''success'', cr_task_id = uuid, cr_target = target,
                        cr_country = country, cr_check_types = all_check_types,
                        cr_sub_tasks = sub_tasks, cr_agent_server = url\<rparr>,
                       sent)))"

text \<open>A Python dict of counters: \<open>d.get(k, 0)\<close> and \<open>d[k] = d.get(k, 0) + 1\<close>.\<close>

definition dict_get :: "(string \<times> nat) list \<Rightarrow> string \<Rightarrow> nat \<Rightarrow> nat" where
  "dict_get d k dflt = (case map_of d k of None \<Rightarrow> dflt | Some v \<Rightarrow> v)"

fun count_statuses :: "(string \<times> nat) list \<Rightarrow> task list \<Rightarrow> (string \<times> nat) list" where
  "count_statuses status_counts [] = status_counts"
| "count_statuses status_counts (t # ts) =
     count_statuses
       (AList.update (t_status t) (dict_get status_counts (t_status t) 0 + 1) status_counts) ts"

text \<open>The first loop of \<open>get_task_status\<close>: the stored sub-tasks of a parent id.\<close>

fun collect_sub_tasks :: "redis \<Rightarrow> string \<Rightarrow> string list \<Rightarrow> task list" where
  "collect_sub_tasks r task_id [] = []"
| "collect_sub_tasks r task_id (key # keys) =
     (let stored_task_id = replace_task key
      in if startswith stored_task_id (task_id @ ''-'')
         then (case get_task r stored_task_id of
                 Some t \<Rightarrow> t # collect_sub_tasks r task_id keys
               | None \<Rightarrow> collect_sub_tasks r task_id keys)
         else collect_sub_tasks r task_id keys)"

record status_response =
  sr_parent_task_id :: string
  sr_target :: "string option"
  sr_country :: "string option"
  sr_status_summary :: "(string \<times> nat) list"
  sr_completed :: bool
  sr_total_checks :: "nat option"
  sr_checks :: "task list"

text \<open>\<open>GET /tasks/{task_id}\<close> (GetCheckStatus).\<close>

definition get_task_status :: "redis \<Rightarrow> string \<Rightarrow> http_error + status_response" where
  "get_task_status r task_id =
     (let sub_tasks = collect_sub_tasks r task_id (scan_iter_task r)
      in if sub_tasks = []
         then (case get_task r task_id of
                 Some main_task \<Rightarrow>
                   Inr \<lparr>sr_parent_task_id = task_id,
                        sr_target = Some (t_target main_task),
                        sr_country = Some (t_country main_task),
                        sr_status_summary = [(t_status main_task, 1)],
                        sr_completed = (t_status main_task = ''completed''),
                        sr_total_checks = None,
                        sr_checks = [main_task]\<rparr>
               | None \<Rightarrow> Inl (HTTPException 404 ''Task not found''))
         else (let status_counts = count_statuses [] sub_tasks
               in Inr \<lparr>sr_parent_task_id = task_id,
                       sr_target = Some (t_target (hd sub_tasks)),
                       sr_country = Some (t_country (hd sub_tasks)),
                       sr_status_summary = status_counts,
                       sr_completed = (dict_get status_counts ''completed'' 0 = length sub_tasks),
                       sr_total_checks = Some (length sub_tasks),
                       sr_checks = sub_tasks\<rparr>))"

section \<open>The liveness monitor (\<open>netpulse_main_server/backend/main.py\<close>)\<close>

text \<open>\<open>agent_info\<close> of \<open>register_agent\<close>.\<close>

record ms_agent =
  m_id :: string
  m_name :: string
  m_location :: string
  m_capabilities :: "string list"
  m_token :: string
  m_status :: string
  m_last_heartbeat :: timestamp
  m_active_tasks :: int
  m_total_tasks :: int
  m_created_at :: timestamp

text \<open>
  The in-memory dict \<open>active_agents\<close>, the Redis keys \<open>agent:<id>\<close> and the Redis
  set \<open>active_agents\<close>.
\<close>

record main_server =
  active_agents :: "(string \<times> ms_agent) list"
  redis_agents :: "(string \<times> ms_agent) list"
  redis_active_agents :: "string set"

text \<open>\<open>timedelta(seconds=n)\<close> in microseconds, the unit of the clock.\<close>

definition timedelta_seconds :: "int \<Rightarrow> int" where
  "timedelta_seconds n = n * 1000000"

text \<open>The first loop of a sweep: the ids whose heartbeat is older than the timeout.\<close>

definition dead_agents :: "int \<Rightarrow> timestamp \<Rightarrow> (string \<times> ms_agent) list \<Rightarrow> string list" where
  "dead_agents heartbeat_timeout current_time items =
     map fst (filter (\<lambda>(agent_id, agent).
        current_time - m_last_heartbeat agent > timedelta_seconds heartbeat_timeout) items)"

text \<open>
  The second loop. \<open>active_agents[agent_id]\<close> raises \<open>KeyError\<close> on an id that is
  not in the dict; the \<open>except\<close> of the sweep catches it and the sweep ends there.
\<close>

fun mark_offline :: "string list \<Rightarrow> main_server \<Rightarrow> main_server" where
  "mark_offline [] s = s"
| "mark_offline (agent_id # rest) s =
     (case map_of (active_agents s) agent_id of
        None \<Rightarrow> s
      | Some agent \<Rightarrow>
          mark_offline rest
            (s\<lparr>redis_agents :=
                 AList.update (''agent:'' @ agent_id) (agent\<lparr>m_status := ''offline''\<rparr>)
                   (redis_agents s),
               redis_active_agents := redis_active_agents s - {agent_id},
               active_agents := AList.delete agent_id (active_agents s)\<rparr>))"

text \<open>
  One round of the \<open>while True\<close> of \<open>cleanup_dead_agents\<close>, at clock reading
  \<open>current_time\<close>, with \<open>config.HEARTBEAT_TIMEOUT = heartbeat_timeout\<close> (300 unless the
  environment sets another value).
\<close>

definition cleanup_cycle :: "int \<Rightarrow> timestamp \<Rightarrow> main_server \<Rightarrow> main_server" where
  "cleanup_cycle heartbeat_timeout current_time s =
     mark_offline (dead_agents heartbeat_timeout current_time (active_agents s)) s"

text \<open>
  The task never returns; its first rounds, one per clock reading of the list, are
\<close>

fun cleanup_dead_agents :: "int \<Rightarrow> timestamp list \<Rightarrow> main_server \<Rightarrow> main_server" where
  "cleanup_dead_agents heartbeat_timeout [] s = s"
| "cleanup_dead_agents heartbeat_timeout (current_time # later) s =
     cleanup_dead_agents heartbeat_timeout later (cleanup_cycle heartbeat_timeout current_time s)"

section \<open>Example states\<close>

definition example_agent :: agent where
  "example_agent =
     \<lparr>a_id = ''agent-ru-0a1b2c3d'', a_name = ''probe'', a_country = ''ru'',
      a_token = ''s3cr3t'', a_capabilities = [''http'', ''ping''], a_status = ''online'',
      a_current_tasks = 2, a_max_tasks = 5, a_created_at = 0, a_last_heartbeat = 0\<rparr>"

definition example_queue :: "task list" where
  "example_queue =
     map (sub_task_data ''p1'' ''example.com'' ''ru'' (\<lambda>c. 0)) [''https'', ''http'', ''ping'']"

definition example_server :: server where
  "example_server =
     \<lparr>agents_db = [(''agent-ru-0a1b2c3d'', example_agent)],
      tasks_queue = example_queue,
      task_results = []\<rparr>"

text \<open>
  A server whose one agent was created with the default capability list, and whose
  queue holds three sub-tasks of the catalog.
\<close>

definition dns_queue :: "task list" where
  "dns_queue =
     map (sub_task_data ''p2'' ''example.org'' ''ru'' (\<lambda>c. 0)) [''dns_a'', ''https'', ''tcp'']"

definition default_agent_server :: server where
  "default_agent_server =
     fst (create_agent (init_server\<lparr>tasks_queue := dns_queue\<rparr>)
            ''probe'' None ''0a1b2c3d'' ''s3cr3t'' 0)"

definition default_agent :: agent where
  "default_agent =
     snd (create_agent (init_server\<lparr>tasks_queue := dns_queue\<rparr>)
            ''probe'' None ''0a1b2c3d'' ''s3cr3t'' 0)"

text \<open>The example server with its agent at capacity.\<close>

definition busy_agent :: agent where
  "busy_agent = example_agent\<lparr>a_current_tasks := 5\<rparr>"

definition busy_server :: server where
  "busy_server = example_server\<lparr>agents_db := [(''agent-ru-0a1b2c3d'', busy_agent)]\<rparr>"

text \<open>An empty store and a parent id as \<open>uuid.uuid4()\<close> prints it.\<close>

definition empty_redis :: redis where
  "empty_redis = \<lparr>kv = [], lists = []\<rparr>"

definition example_uuid :: string where
  "example_uuid = ''123e4567-e89b-42d3-a456-426614174000''"

text \<open>
  A store with two sub-tasks of the parent \<open>p1\<close>, one of them completed, and one
  sub-task of another parent.
\<close>

definition example_redis :: redis where
  "example_redis =
     \<lparr>kv = [(''task:p1-http'',
              (sub_task_data ''p1'' ''example.com'' ''ru'' (\<lambda>c. 0) ''http'')
                \<lparr>t_status := ''completed''\<rparr>),
             (''task:p1-ping'', sub_task_data ''p1'' ''example.com'' ''ru'' (\<lambda>c. 0) ''ping''),
             (''task:p2-http'', sub_task_data ''p2'' ''example.org'' ''ru'' (\<lambda>c. 0) ''http'')],
      lists = []\<rparr>"


section \<open>Lemmas on the task queue\<close>

lemma get_pending_task_for_agent_Some:
  "get_pending_task_for_agent caps ts = Some i \<Longrightarrow>
     i < length ts \<and> eligible caps (ts ! i) \<and> (\<forall>j<i. \<not> eligible caps (ts ! j))"
proof (induction ts arbitrary: i)
  case Nil
  then show ?case by simp
next
  case (Cons t ts)
  show ?case
  proof (cases "eligible caps t")
    case True
    with Cons.prems show ?thesis by (simp add: eligible_def)
  next
    case False
    with Cons.prems obtain k where k: "get_pending_task_for_agent caps ts = Some k" "i = Suc k"
      by (auto simp: eligible_def)
    from Cons.IH [OF k(1)] False k(2) show ?thesis
      by (auto simp: less_Suc_eq_0_disj)
  qed
qed



lemma length_update_task_status [simp]:
  "length (update_task_status task_id status agent_id ts) = length ts"
  by (induction ts) auto

lemma ids_update_task_status [simp]:
  "map t_id (update_task_status task_id status agent_id ts) = map t_id ts"
  by (induction ts) (auto split: option.splits)

lemma check_types_update_task_status [simp]:
  "map t_check_type (update_task_status task_id status agent_id ts) = map t_check_type ts"
  by (induction ts) (auto split: option.splits)

lemma update_task_status_assign:
  "distinct (map t_id ts) \<Longrightarrow> i < length ts \<Longrightarrow> a \<noteq> [] \<Longrightarrow>
     update_task_status (t_id (ts ! i)) status (Some a) ts =
       ts[i := (ts ! i)\<lparr>t_status := status, t_assigned_agent := Some a\<rparr>]"
proof (induction ts arbitrary: i)
  case Nil
  then show ?case by simp
next
  case (Cons t ts)
  show ?case
  proof (cases i)
    case 0
    with Cons.prems show ?thesis by simp
  next
    case (Suc k)
    with Cons.prems have "t_id t \<noteq> t_id (ts ! k)" by auto
    with Suc Cons show ?thesis by simp
  qed
qed


lemma update_task_status_first:
  "j < length ts \<Longrightarrow> t_id (ts ! j) = task_id \<Longrightarrow> \<forall>k<j. t_id (ts ! k) \<noteq> task_id \<Longrightarrow>
     update_task_status task_id status agent_id ts =
       ts[j := (ts ! j)\<lparr>t_status := status,
                        t_assigned_agent :=
                          (case agent_id of
                             None \<Rightarrow> t_assigned_agent (ts ! j)
                           | Some a \<Rightarrow> if a = [] then t_assigned_agent (ts ! j) else Some a)\<rparr>]"
proof (induction ts arbitrary: j)
  case Nil
  then show ?case by simp
next
  case (Cons t ts)
  show ?case
  proof (cases j)
    case 0
    with Cons.prems show ?thesis by (simp split: option.splits)
  next
    case (Suc j')
    with Cons.prems have ne: "t_id t \<noteq> task_id" by auto
    from Suc Cons.prems have "\<forall>k<j'. t_id (ts ! k) \<noteq> task_id" by auto
    with Suc Cons.prems ne Cons.IH [of j'] show ?thesis
      by (cases agent_id) (simp_all cong: if_cong)
  qed
qed

section \<open>Result submission succeeds for every task id\<close>

lemma update_task_status_absent:
  "task_id \<notin> set (map t_id ts) \<Longrightarrow> update_task_status task_id status agent_id ts = ts"
  by (induction ts) auto

text \<open>
  C10. With a valid agent credential \<open>submit_result\<close> returns \<open>success\<close> for every
  task id and raises nothing (no 404 in particular). The result is stored under the
  id and the agent's load drops by one, floored at 0. When the id is the id of no
  queued sub-task the queue is left as it was.
\<close>

theorem submit_result_unknown_task:
  assumes "verify_agent s agent_id agent_token"
  shows "\<exists>agent s'.
           get_agent s agent_id = Some agent \<and>
           submit_result s task_id agent_id agent_token res = Inr (s', StatusOnly ''success'') \<and>
           map_of (task_results s') task_id = Some res \<and>
           get_agent s' agent_id =
             Some (agent\<lparr>a_current_tasks := max 0 (a_current_tasks agent - 1)\<rparr>) \<and>
           (task_id \<notin> set (map t_id (tasks_queue s)) \<longrightarrow> tasks_queue s' = tasks_queue s)"
proof -
  from assms obtain agent where ag: "map_of (agents_db s) agent_id = Some agent"
    by (auto simp: verify_agent_def split: option.splits)
  show ?thesis
    using assms ag
    by (simp add: submit_result_def get_agent_def Let_def update_conv'
        update_task_status_absent)
qed

theorem submit_result_unknown_task_witness:
  "verify_agent example_server ''agent-ru-0a1b2c3d'' ''s3cr3t'' \<and>
   ''no-such-task'' \<notin> set (map t_id (tasks_queue example_server)) \<and>
   (\<exists>s'. submit_result example_server ''no-such-task'' ''agent-ru-0a1b2c3d'' ''s3cr3t''
            [(''status'', ''success'')] = Inr (s', StatusOnly ''success'') \<and>
          map_of (task_results s') ''no-such-task'' = Some [(''status'', ''success'')] \<and>
          get_agent s' ''agent-ru-0a1b2c3d'' = Some (example_agent\<lparr>a_current_tasks := 1\<rparr>) \<and>
          tasks_queue s' = example_queue)"
proof -
  have h: "verify_agent example_server ''agent-ru-0a1b2c3d'' ''s3cr3t''"
    by (simp add: verify_agent_def example_server_def example_agent_def)
  have q: "''no-such-task'' \<notin> set (map t_id (tasks_queue example_server))"
    by (simp add: example_server_def example_queue_def sub_task_data_def sub_task_id_def)
  have a: "get_agent example_server ''agent-ru-0a1b2c3d'' = Some example_agent"
    by (simp add: get_agent_def example_server_def)
  have z: "max 0 (a_current_tasks example_agent - 1) = 1"
    by (simp add: example_agent_def)
  have e: "tasks_queue example_server = example_queue"
    by (simp add: example_server_def)
  show ?thesis
    using submit_result_unknown_task
            [OF h, of "''no-such-task''" "[(''status'', ''success'')]"] h q a z e
    by auto
qed

section \<open>Capabilities of a default agent\<close>

lemma get_pending_task_TaskBody:
  assumes "get_pending_task s agent_id agent_token now = Inr (s', TaskBody t)"
  shows "\<exists>agent i. get_agent s agent_id = Some agent \<and>
           get_pending_task_for_agent (a_capabilities agent) (tasks_queue s) = Some i \<and>
           t = update_task_status (t_id (tasks_queue s ! i)) ''assigned'' (Some agent_id)
                 (tasks_queue s) ! i"
  using assms
  by (auto simp: get_pending_task_def Let_def split: if_splits option.splits)

lemma check_type_update_task_status_nth:
  "i < length ts \<Longrightarrow>
     t_check_type (update_task_status task_id status agent_id ts ! i) = t_check_type (ts ! i)"
proof -
  assume i: "i < length ts"
  have "map t_check_type (update_task_status task_id status agent_id ts) ! i
        = map t_check_type ts ! i"
    by simp
  with i show ?thesis by (simp del: check_types_update_task_status)
qed

lemma get_pending_task_check_type:
  assumes "get_pending_task s agent_id agent_token now = Inr (s', TaskBody t)"
    and "get_agent s agent_id = Some agent"
  shows "t_check_type t \<in> set (a_capabilities agent)"
proof -
  from get_pending_task_TaskBody [OF assms(1)] assms(2) obtain i where
    i: "get_pending_task_for_agent (a_capabilities agent) (tasks_queue s) = Some i"
    and t: "t = update_task_status (t_id (tasks_queue s ! i)) ''assigned'' (Some agent_id)
                 (tasks_queue s) ! i"
    by auto
  from get_pending_task_for_agent_Some [OF i]
  have "i < length (tasks_queue s)" "eligible (a_capabilities agent) (tasks_queue s ! i)"
    by auto
  then show ?thesis
    by (simp add: t check_type_update_task_status_nth eligible_def)
qed

lemma step_capabilities:
  "get_agent s agent_id = Some agent \<Longrightarrow>
     \<exists>agent'. get_agent (step s e) agent_id = Some agent' \<and>
              a_capabilities agent' = a_capabilities agent"
  by (cases e)
     (auto simp: get_pending_task_def submit_result_def get_agent_def Let_def update_conv'
           split: if_splits option.splits)

lemma run_capabilities:
  "get_agent s agent_id = Some agent \<Longrightarrow>
     \<exists>agent'. get_agent (run s es) agent_id = Some agent' \<and>
              a_capabilities agent' = a_capabilities agent"
proof (induction es arbitrary: s agent)
  case Nil
  then show ?case by simp
next
  case (Cons e es)
  from step_capabilities [OF Cons.prems, of e] obtain a1 where
    a1: "get_agent (step s e) agent_id = Some a1" "a_capabilities a1 = a_capabilities agent"
    by auto
  from Cons.IH [OF a1(1)] a1(2) show ?case by simp
qed

text \<open>
  C9. Capability matching is list membership of the check-type string.
  \<open>create_agent\<close> without capabilities stores the list http, ping, tcp, dns. Of the
  ten catalog check types three are elements of it (http, ping, tcp) and seven are
  not. For an agent with that list, after any run of polls and submissions, a task
  returned by \<open>get_pending_task\<close> has a check type among http, ping, tcp, dns, never
  one of https, traceroute, dns_a, dns_aaaa, dns_mx, dns_ns, dns_txt; when its
  check type is one of the catalog it is http, ping or tcp.
\<close>

theorem default_capabilities_eligibility:
  "(case create_agent s0 name None hex4 hex16 t0 of
      (s1, agent_data) \<Rightarrow>
        a_capabilities agent_data = default_capabilities \<and>
        get_agent s1 (a_id agent_data) = Some agent_data) \<and>
   filter (\<lambda>c. c \<in> set default_capabilities) all_check_types = [''http'', ''ping'', ''tcp''] \<and>
   filter (\<lambda>c. c \<notin> set default_capabilities) all_check_types =
     [''https'', ''traceroute'', ''dns_a'', ''dns_aaaa'', ''dns_mx'', ''dns_ns'', ''dns_txt''] \<and>
   (get_agent s agent_id = Some agent \<and> a_capabilities agent = default_capabilities \<and>
    get_pending_task (run s es) agent_id agent_token now = Inr (s', TaskBody t) \<longrightarrow>
      t_check_type t \<in> {''http'', ''ping'', ''tcp'', ''dns''} \<and>
      t_check_type t \<notin> {''https'', ''traceroute'', ''dns_a'', ''dns_aaaa'', ''dns_mx'',
                          ''dns_ns'', ''dns_txt''} \<and>
      (t_check_type t \<in> set all_check_types \<longrightarrow>
         t_check_type t \<in> {''http'', ''ping'', ''tcp''}))"
proof (intro conjI impI)
  show "case create_agent s0 name None hex4 hex16 t0 of
      (s1, agent_data) \<Rightarrow>
        a_capabilities agent_data = default_capabilities \<and>
        get_agent s1 (a_id agent_data) = Some agent_data"
    by (simp add: create_agent_def get_agent_def Let_def update_conv')
  show "filter (\<lambda>c. c \<in> set default_capabilities) all_check_types = [''http'', ''ping'', ''tcp'']"
    by (simp add: default_capabilities_def all_check_types_def)
  show "filter (\<lambda>c. c \<notin> set default_capabilities) all_check_types =
     [''https'', ''traceroute'', ''dns_a'', ''dns_aaaa'', ''dns_mx'', ''dns_ns'', ''dns_txt'']"
    by (simp add: default_capabilities_def all_check_types_def)
next
  assume h: "get_agent s agent_id = Some agent \<and> a_capabilities agent = default_capabilities \<and>
    get_pending_task (run s es) agent_id agent_token now = Inr (s', TaskBody t)"
  from run_capabilities [of s agent_id agent es] h obtain agent' where
    a': "get_agent (run s es) agent_id = Some agent'"
        "a_capabilities agent' = default_capabilities"
    by auto
  from get_pending_task_check_type [OF _ a'(1)] h a'(2)
  have m: "t_check_type t \<in> set default_capabilities" by auto
  then show "t_check_type t \<in> {''http'', ''ping'', ''tcp'', ''dns''}"
    by (simp add: default_capabilities_def)
  from m show "t_check_type t \<notin> {''https'', ''traceroute'', ''dns_a'', ''dns_aaaa'', ''dns_mx'',
                          ''dns_ns'', ''dns_txt''}"
    by (auto simp: default_capabilities_def)
  assume "t_check_type t \<in> set all_check_types"
  with m show "t_check_type t \<in> {''http'', ''ping'', ''tcp''}"
    by (auto simp: default_capabilities_def all_check_types_def)
qed


theorem default_capabilities_eligibility_witness:
  "get_agent default_agent_server ''agent-ru-0a1b2c3d'' = Some default_agent \<and>
   a_capabilities default_agent = default_capabilities \<and>
   map t_check_type (tasks_queue default_agent_server) = [''dns_a'', ''https'', ''tcp''] \<and>
   get_pending_task (run default_agent_server []) ''agent-ru-0a1b2c3d'' ''s3cr3t'' 7 =
     Inr (default_agent_server
            \<lparr>tasks_queue := dns_queue[2 := (dns_queue ! 2)
               \<lparr>t_status := ''assigned'', t_assigned_agent := Some ''agent-ru-0a1b2c3d''\<rparr>],
             agents_db := [(''agent-ru-0a1b2c3d'',
               default_agent\<lparr>a_current_tasks := 1, a_last_heartbeat := 7\<rparr>)]\<rparr>,
          TaskBody ((dns_queue ! 2)
            \<lparr>t_status := ''assigned'', t_assigned_agent := Some ''agent-ru-0a1b2c3d''\<rparr>)) \<and>
   t_check_type ((dns_queue ! 2)
      \<lparr>t_status := ''assigned'', t_assigned_agent := Some ''agent-ru-0a1b2c3d''\<rparr>) = ''tcp'' \<and>
   ''tcp'' \<in> {''http'', ''ping'', ''tcp''}"
proof -
  have a: "get_agent default_agent_server ''agent-ru-0a1b2c3d'' = Some default_agent"
    by (simp add: default_agent_server_def default_agent_def create_agent_def get_agent_def
        init_server_def CONFIG_country_def Let_def)
  have c: "a_capabilities default_agent = default_capabilities"
    by (simp add: default_agent_def create_agent_def Let_def)
  have q: "map t_check_type (tasks_queue default_agent_server) = [''dns_a'', ''https'', ''tcp'']"
    by (simp add: default_agent_server_def create_agent_def init_server_def dns_queue_def
        sub_task_data_def Let_def)
  have p: "get_pending_task (run default_agent_server []) ''agent-ru-0a1b2c3d'' ''s3cr3t'' 7 =
     Inr (default_agent_server
            \<lparr>tasks_queue := dns_queue[2 := (dns_queue ! 2)
               \<lparr>t_status := ''assigned'', t_assigned_agent := Some ''agent-ru-0a1b2c3d''\<rparr>],
             agents_db := [(''agent-ru-0a1b2c3d'',
               default_agent\<lparr>a_current_tasks := 1, a_last_heartbeat := 7\<rparr>)]\<rparr>,
          TaskBody ((dns_queue ! 2)
            \<lparr>t_status := ''assigned'', t_assigned_agent := Some ''agent-ru-0a1b2c3d''\<rparr>))"
    by (simp add: default_agent_server_def default_agent_def create_agent_def init_server_def
        dns_queue_def sub_task_data_def sub_task_id_def get_pending_task_def verify_agent_def
        get_agent_def CONFIG_country_def default_capabilities_def Let_def)
  have t: "t_check_type ((dns_queue ! 2)
      \<lparr>t_status := ''assigned'', t_assigned_agent := Some ''agent-ru-0a1b2c3d''\<rparr>) = ''tcp''"
    by (simp add: dns_queue_def sub_task_data_def)
  have m: "''tcp'' \<in> set all_check_types"
    by (simp add: all_check_types_def)
  from default_capabilities_eligibility
         [of init_server "''probe''" "''0a1b2c3d''" "''s3cr3t''" 0
             default_agent_server "''agent-ru-0a1b2c3d''" default_agent "[]"
             "''s3cr3t''" 7] a c q p t m
  show ?thesis by simp
qed

section \<open>The load of an agent stays within its capacity\<close>

lemma set_update_cases:
  "(k', v') \<in> set (AList.update k v al) \<Longrightarrow> (k', v') = (k, v) \<or> (k', v') \<in> set al"
  by (induction al) (auto split: if_splits)

lemma agents_ok_update:
  assumes "agents_ok s"
    and "0 \<le> a_current_tasks a" "a_current_tasks a \<le> a_max_tasks a"
  shows "agents_ok (s\<lparr>agents_db := AList.update k a (agents_db s)\<rparr>)"
  using assms by (auto simp: agents_ok_def list_all_iff dest!: set_update_cases)

lemma agents_ok_lookup:
  "agents_ok s \<Longrightarrow> get_agent s k = Some a \<Longrightarrow>
     0 \<le> a_current_tasks a \<and> a_current_tasks a \<le> a_max_tasks a"
  by (auto simp: agents_ok_def get_agent_def list_all_iff dest!: map_of_SomeD)

lemma agents_ok_queue [simp]:
  "agents_ok (s\<lparr>tasks_queue := q\<rparr>) = agents_ok s"
  "agents_ok (s\<lparr>task_results := r\<rparr>) = agents_ok s"
  by (simp_all add: agents_ok_def)

lemma agents_ok_get_pending_task:
  assumes "agents_ok s" "get_pending_task s agent_id agent_token now = Inr (s', r)"
  shows "agents_ok s'"
proof (cases "s' = s")
  case True
  with assms show ?thesis by simp
next
  case False
  with assms(2) obtain agent q where
    a: "get_agent s agent_id = Some agent" "a_current_tasks agent < a_max_tasks agent"
    and s': "s' = s\<lparr>tasks_queue := q,
                    agents_db := AList.update agent_id
                      (agent\<lparr>a_current_tasks := a_current_tasks agent + 1,
                             a_last_heartbeat := now\<rparr>) (agents_db s)\<rparr>"
    by (auto simp: get_pending_task_def Let_def split: if_splits option.splits)
  from agents_ok_lookup [OF assms(1) a(1)] a(2)
  have "agents_ok (s\<lparr>tasks_queue := q\<rparr>\<lparr>agents_db := AList.update agent_id
                      (agent\<lparr>a_current_tasks := a_current_tasks agent + 1,
                             a_last_heartbeat := now\<rparr>) (agents_db (s\<lparr>tasks_queue := q\<rparr>))\<rparr>)"
    using assms(1) by (intro agents_ok_update) auto
  then show ?thesis by (simp add: s')
qed

lemma agents_ok_submit_result:
  assumes "agents_ok s" "submit_result s task_id agent_id agent_token res = Inr (s', r)"
  shows "agents_ok s'"
proof (cases "get_agent s agent_id")
  case None
  with assms show ?thesis
    by (auto simp: submit_result_def Let_def agents_ok_def split: if_splits)
next
  case (Some agent)
  from agents_ok_lookup [OF assms(1) Some]
  have "agents_ok (s\<lparr>agents_db := AList.update agent_id
          (agent\<lparr>a_current_tasks := max 0 (a_current_tasks agent - 1)\<rparr>) (agents_db s)\<rparr>)"
    using assms(1) by (intro agents_ok_update) auto
  with assms(2) Some show ?thesis
    by (auto simp: submit_result_def Let_def agents_ok_def split: if_splits)
qed

lemma agents_ok_step: "agents_ok s \<Longrightarrow> agents_ok (step s e)"
  by (cases e) (auto split: sum.splits dest: agents_ok_get_pending_task agents_ok_submit_result)

lemma agents_ok_run: "agents_ok s \<Longrightarrow> agents_ok (run s es)"
  by (induction es arbitrary: s) (auto simp: agents_ok_step)

lemma agents_ok_create_agent:
  "agents_ok s \<Longrightarrow> agents_ok (fst (create_agent s name caps hex4 hex16 now))"
  by (auto simp: create_agent_def Let_def intro!: agents_ok_update)

text \<open>
  C4. The load bound \<open>0 \<le> current_tasks \<le> max_tasks\<close> of every agent record holds
  in the initial state, is kept by \<open>create_agent\<close> and by every run of PollTask and
  SubmitResult operations, so it holds for every agent after every prefix of such a
  run. A poll for an agent whose \<open>current_tasks\<close> has reached \<open>max_tasks\<close> changes no
  state and returns no task, whatever the token and the status; for a verified,
  online agent it returns \<open>busy\<close>. After a submission by a verified agent that
  agent's \<open>current_tasks\<close> is at least 0.
\<close>

theorem current_tasks_within_capacity:
  "agents_ok init_server \<and>
   (agents_ok s \<longrightarrow> agents_ok (fst (create_agent s name caps hex4 hex16 t0))) \<and>
   (agents_ok s \<longrightarrow> agents_ok (run s es)) \<and>
   (agents_ok s \<and> get_agent (run s es) agent_id = Some agent \<longrightarrow>
      0 \<le> a_current_tasks agent \<and> a_current_tasks agent \<le> a_max_tasks agent) \<and>
   (get_agent s agent_id = Some agent \<and> a_max_tasks agent \<le> a_current_tasks agent \<longrightarrow>
      step s (PollTask agent_id agent_token now) = s \<and>
      (\<forall>s' t. get_pending_task s agent_id agent_token now \<noteq> Inr (s', TaskBody t)) \<and>
      (verify_agent s agent_id agent_token \<and> a_status agent = ''online'' \<longrightarrow>
         get_pending_task s agent_id agent_token now = Inr (s, StatusOnly ''busy''))) \<and>
   (verify_agent s agent_id agent_token \<longrightarrow>
      (\<exists>s' agent'. submit_result s task_id agent_id agent_token res
                      = Inr (s', StatusOnly ''success'') \<and>
                    get_agent s' agent_id = Some agent' \<and> 0 \<le> a_current_tasks agent'))"
proof (intro conjI impI)
  show "agents_ok init_server"
    by (simp add: agents_ok_def init_server_def)
  show "agents_ok (fst (create_agent s name caps hex4 hex16 t0))" if "agents_ok s"
    using that by (rule agents_ok_create_agent)
  show "agents_ok (run s es)" if "agents_ok s"
    using that by (rule agents_ok_run)
  show "0 \<le> a_current_tasks agent" "a_current_tasks agent \<le> a_max_tasks agent"
    if "agents_ok s \<and> get_agent (run s es) agent_id = Some agent"
    using that agents_ok_lookup [of "run s es" agent_id agent] agents_ok_run [of s es]
    by auto
  show "step s (PollTask agent_id agent_token now) = s"
    if "get_agent s agent_id = Some agent \<and> a_max_tasks agent \<le> a_current_tasks agent"
    using that by (auto simp: get_pending_task_def)
  show "\<forall>s' t. get_pending_task s agent_id agent_token now \<noteq> Inr (s', TaskBody t)"
    if "get_agent s agent_id = Some agent \<and> a_max_tasks agent \<le> a_current_tasks agent"
    using that by (auto simp: get_pending_task_def)
  show "get_pending_task s agent_id agent_token now = Inr (s, StatusOnly ''busy'')"
    if "get_agent s agent_id = Some agent \<and> a_max_tasks agent \<le> a_current_tasks agent"
      and "verify_agent s agent_id agent_token \<and> a_status agent = ''online''"
    using that by (auto simp: get_pending_task_def)
  show "\<exists>s' agent'. submit_result s task_id agent_id agent_token res
                      = Inr (s', StatusOnly ''success'') \<and>
                    get_agent s' agent_id = Some agent' \<and> 0 \<le> a_current_tasks agent'"
    if "verify_agent s agent_id agent_token"
  proof -
    from that obtain a where "map_of (agents_db s) agent_id = Some a"
      by (auto simp: verify_agent_def split: option.splits)
    with that show ?thesis
      by (simp add: submit_result_def get_agent_def Let_def update_conv')
  qed
qed


theorem current_tasks_within_capacity_witness:
  "agents_ok busy_server \<and>
   get_agent busy_server ''agent-ru-0a1b2c3d'' = Some busy_agent \<and>
   a_max_tasks busy_agent \<le> a_current_tasks busy_agent \<and>
   verify_agent busy_server ''agent-ru-0a1b2c3d'' ''s3cr3t'' \<and>
   a_status busy_agent = ''online'' \<and>
   agents_ok (fst (create_agent busy_server ''probe-2'' None ''ffffffff'' ''t0k3n'' 3)) \<and>
   agents_ok (run busy_server
      [PollTask ''agent-ru-0a1b2c3d'' ''s3cr3t'' 7,
       SubmitResult ''p1-http'' ''agent-ru-0a1b2c3d'' ''s3cr3t'' [],
       PollTask ''agent-ru-0a1b2c3d'' ''s3cr3t'' 9]) \<and>
   0 \<le> a_current_tasks busy_agent \<and>
   step busy_server (PollTask ''agent-ru-0a1b2c3d'' ''s3cr3t'' 7) = busy_server \<and>
   get_pending_task busy_server ''agent-ru-0a1b2c3d'' ''s3cr3t'' 7
     = Inr (busy_server, StatusOnly ''busy'') \<and>
   (\<exists>s' agent'. submit_result busy_server ''p1-http'' ''agent-ru-0a1b2c3d'' ''s3cr3t'' []
                   = Inr (s', StatusOnly ''success'') \<and>
                 get_agent s' ''agent-ru-0a1b2c3d'' = Some agent' \<and>
                 0 \<le> a_current_tasks agent')"
proof -
  have ok: "agents_ok busy_server"
    by (simp add: agents_ok_def busy_server_def busy_agent_def example_agent_def)
  have a: "get_agent busy_server ''agent-ru-0a1b2c3d'' = Some busy_agent"
    by (simp add: get_agent_def busy_server_def)
  have full: "a_max_tasks busy_agent \<le> a_current_tasks busy_agent"
    by (simp add: busy_agent_def example_agent_def)
  have v: "verify_agent busy_server ''agent-ru-0a1b2c3d'' ''s3cr3t''"
    by (simp add: verify_agent_def busy_server_def busy_agent_def example_agent_def)
  have on: "a_status busy_agent = ''online''"
    by (simp add: busy_agent_def example_agent_def)
  have r0: "run busy_server [] = busy_server"
    by simp
  note one = current_tasks_within_capacity
    [of busy_server "''probe-2''" None "''ffffffff''" "''t0k3n''" 3 "[]"
        "''agent-ru-0a1b2c3d''" busy_agent "''s3cr3t''" 7 "''p1-http''" "[]"]
  note two = current_tasks_within_capacity
    [of busy_server "''probe-2''" None "''ffffffff''" "''t0k3n''" 3
        "[PollTask ''agent-ru-0a1b2c3d'' ''s3cr3t'' 7,
          SubmitResult ''p1-http'' ''agent-ru-0a1b2c3d'' ''s3cr3t'' [],
          PollTask ''agent-ru-0a1b2c3d'' ''s3cr3t'' 9]"]
  from two ok have three: "agents_ok (run busy_server
      [PollTask ''agent-ru-0a1b2c3d'' ''s3cr3t'' 7,
       SubmitResult ''p1-http'' ''agent-ru-0a1b2c3d'' ''s3cr3t'' [],
       PollTask ''agent-ru-0a1b2c3d'' ''s3cr3t'' 9])"
    by blast
  from one ok a full v on r0 three show ?thesis
    by (simp only: r0)
qed

section \<open>Repeated result submission\<close>

lemma update_task_status_idem:
  "update_task_status task_id status None (update_task_status task_id status None ts) =
     update_task_status task_id status None ts"
  by (induction ts) auto

text \<open>
  \<open>submit_result\<close> keeps no record of the sub-tasks an agent has already
  reported. The agent of the example server holds two tasks. It submits a result for
  the sub-task \<open>p1-http\<close> and then submits it again: its load goes from 2 to 1 and
  then to 0, so the second submission for the same sub-task decrements the load too.
\<close>

theorem submit_result_twice_counterexample:
  "map_option a_current_tasks (get_agent example_server ''agent-ru-0a1b2c3d'') = Some 2 \<and>
   map_option a_current_tasks
     (get_agent (run example_server
        [SubmitResult ''p1-http'' ''agent-ru-0a1b2c3d'' ''s3cr3t'' [(''status'', ''success'')]])
        ''agent-ru-0a1b2c3d'') = Some 1 \<and>
   map_option a_current_tasks
     (get_agent (run example_server
        [SubmitResult ''p1-http'' ''agent-ru-0a1b2c3d'' ''s3cr3t'' [(''status'', ''success'')],
         SubmitResult ''p1-http'' ''agent-ru-0a1b2c3d'' ''s3cr3t'' [(''status'', ''success'')]])
        ''agent-ru-0a1b2c3d'') = Some 0"
  by (simp add: example_server_def example_agent_def get_agent_def submit_result_def
      verify_agent_def Let_def)

text \<open>
  C3, as the code has it. For a verified agent both submissions return \<open>success\<close>.
  The first one sets the status of the first queue entry that carries the id to
  \<open>completed\<close> and changes nothing else in the queue (and nothing at all when no
  entry carries the id); the second one leaves the queue as the first one left it.
  The stored result is the one of the latest submission. Every submission
  decrements the load by one, floored at 0: after the first the load is
  \<open>max 0 (n - 1)\<close>, after the second \<open>max 0 (n - 2)\<close>.
\<close>

theorem submit_result_repeated:
  assumes "verify_agent s agent_id agent_token"
    and "get_agent s agent_id = Some agent"
  shows "\<exists>s1 s2.
           submit_result s task_id agent_id agent_token res1 = Inr (s1, StatusOnly ''success'') \<and>
           submit_result s1 task_id agent_id agent_token res2 = Inr (s2, StatusOnly ''success'') \<and>
           map_of (task_results s1) task_id = Some res1 \<and>
           map_of (task_results s2) task_id = Some res2 \<and>
           (\<forall>j. j < length (tasks_queue s) \<and> t_id (tasks_queue s ! j) = task_id \<and>
                (\<forall>k<j. t_id (tasks_queue s ! k) \<noteq> task_id) \<longrightarrow>
              tasks_queue s1 =
                (tasks_queue s)[j := (tasks_queue s ! j)\<lparr>t_status := ''completed''\<rparr>]) \<and>
           (task_id \<notin> set (map t_id (tasks_queue s)) \<longrightarrow> tasks_queue s1 = tasks_queue s) \<and>
           tasks_queue s2 = tasks_queue s1 \<and>
           task_results s1 = AList.update task_id res1 (task_results s) \<and>
           task_results s2 = AList.update task_id res2 (task_results s1) \<and>
           agents_db s1 =
             AList.update agent_id
               (agent\<lparr>a_current_tasks := max 0 (a_current_tasks agent - 1)\<rparr>) (agents_db s) \<and>
           agents_db s2 =
             AList.update agent_id
               (agent\<lparr>a_current_tasks := max 0 (a_current_tasks agent - 2)\<rparr>) (agents_db s1) \<and>
           get_agent s1 agent_id =
             Some (agent\<lparr>a_current_tasks := max 0 (a_current_tasks agent - 1)\<rparr>) \<and>
           get_agent s2 agent_id =
             Some (agent\<lparr>a_current_tasks := max 0 (a_current_tasks agent - 2)\<rparr>)"
proof -
  define s1 where "s1 = s\<lparr>tasks_queue := update_task_status task_id ''completed'' None (tasks_queue s),
      agents_db := AList.update agent_id
        (agent\<lparr>a_current_tasks := max 0 (a_current_tasks agent - 1)\<rparr>) (agents_db s),
      task_results := AList.update task_id res1 (task_results s)\<rparr>"
  have first: "submit_result s task_id agent_id agent_token res1 = Inr (s1, StatusOnly ''success'')"
    using assms by (simp add: submit_result_def s1_def Let_def)
  have a1: "get_agent s1 agent_id =
              Some (agent\<lparr>a_current_tasks := max 0 (a_current_tasks agent - 1)\<rparr>)"
    by (simp add: s1_def get_agent_def update_conv')
  have v1: "verify_agent s1 agent_id agent_token"
    using assms by (simp add: verify_agent_def get_agent_def s1_def update_conv')
  define s2 where "s2 = s1\<lparr>tasks_queue := update_task_status task_id ''completed'' None (tasks_queue s1),
      agents_db := AList.update agent_id
        (agent\<lparr>a_current_tasks := max 0 (a_current_tasks agent - 2)\<rparr>) (agents_db s1),
      task_results := AList.update task_id res2 (task_results s1)\<rparr>"
  have m: "max 0 (max 0 (a_current_tasks agent - 1) - 1) = max 0 (a_current_tasks agent - 2)"
    by simp
  have second: "submit_result s1 task_id agent_id agent_token res2 = Inr (s2, StatusOnly ''success'')"
    using v1 a1 by (simp add: submit_result_def s2_def Let_def m)
  have "map_of (task_results s1) task_id = Some res1"
    by (simp add: s1_def update_conv')
  moreover have "map_of (task_results s2) task_id = Some res2"
    by (simp add: s2_def update_conv')
  moreover have "tasks_queue s2 = tasks_queue s1"
    by (simp add: s2_def s1_def update_task_status_idem)
  moreover have "\<forall>j. j < length (tasks_queue s) \<and> t_id (tasks_queue s ! j) = task_id \<and>
                (\<forall>k<j. t_id (tasks_queue s ! k) \<noteq> task_id) \<longrightarrow>
              tasks_queue s1 =
                (tasks_queue s)[j := (tasks_queue s ! j)\<lparr>t_status := ''completed''\<rparr>]"
    using update_task_status_first [of _ "tasks_queue s" task_id "''completed''" None]
    by (simp add: s1_def)
  moreover have "task_results s1 = AList.update task_id res1 (task_results s)"
    by (simp add: s1_def)
  moreover have "task_results s2 = AList.update task_id res2 (task_results s1)"
    by (simp add: s2_def)
  moreover have "agents_db s1 =
             AList.update agent_id
               (agent\<lparr>a_current_tasks := max 0 (a_current_tasks agent - 1)\<rparr>) (agents_db s)"
    by (simp add: s1_def)
  moreover have "agents_db s2 =
             AList.update agent_id
               (agent\<lparr>a_current_tasks := max 0 (a_current_tasks agent - 2)\<rparr>) (agents_db s1)"
    by (simp add: s2_def)
  moreover have "task_id \<notin> set (map t_id (tasks_queue s)) \<longrightarrow> tasks_queue s1 = tasks_queue s"
    by (simp add: s1_def update_task_status_absent)
  moreover have "get_agent s2 agent_id =
             Some (agent\<lparr>a_current_tasks := max 0 (a_current_tasks agent - 2)\<rparr>)"
    by (simp add: s2_def get_agent_def update_conv')
  ultimately show ?thesis using first second a1 by blast
qed

theorem submit_result_repeated_witness:
  "verify_agent example_server ''agent-ru-0a1b2c3d'' ''s3cr3t'' \<and>
   get_agent example_server ''agent-ru-0a1b2c3d'' = Some example_agent \<and>
   a_current_tasks example_agent = 2 \<and>
   (\<exists>s1 s2.
      submit_result example_server ''p1-http'' ''agent-ru-0a1b2c3d'' ''s3cr3t''
        [(''status'', ''success'')] = Inr (s1, StatusOnly ''success'') \<and>
      submit_result s1 ''p1-http'' ''agent-ru-0a1b2c3d'' ''s3cr3t''
        [(''status'', ''retry'')] = Inr (s2, StatusOnly ''success'') \<and>
      map_of (task_results s1) ''p1-http'' = Some [(''status'', ''success'')] \<and>
      map_of (task_results s2) ''p1-http'' = Some [(''status'', ''retry'')] \<and>
      map t_status (tasks_queue s1) = [''pending'', ''completed'', ''pending''] \<and>
      tasks_queue s2 = tasks_queue s1 \<and>
      get_agent s1 ''agent-ru-0a1b2c3d'' = Some (example_agent\<lparr>a_current_tasks := 1\<rparr>) \<and>
      get_agent s2 ''agent-ru-0a1b2c3d'' = Some (example_agent\<lparr>a_current_tasks := 0\<rparr>))"
proof -
  have v: "verify_agent example_server ''agent-ru-0a1b2c3d'' ''s3cr3t''"
    by (simp add: verify_agent_def example_server_def example_agent_def)
  have a: "get_agent example_server ''agent-ru-0a1b2c3d'' = Some example_agent"
    by (simp add: get_agent_def example_server_def)
  have c: "a_current_tasks example_agent = 2"
    by (simp add: example_agent_def)
  have q: "tasks_queue example_server = example_queue"
    by (simp add: example_server_def)
  have first: "1 < length (tasks_queue example_server) \<and>
      t_id (tasks_queue example_server ! 1) = ''p1-http'' \<and>
      (\<forall>k<1. t_id (tasks_queue example_server ! k) \<noteq> ''p1-http'')"
    by (simp add: q example_queue_def sub_task_data_def sub_task_id_def)
  have st: "map t_status
              ((tasks_queue example_server)
                 [1 := (tasks_queue example_server ! 1)\<lparr>t_status := ''completed''\<rparr>]) =
            [''pending'', ''completed'', ''pending'']"
    by (simp add: q example_queue_def sub_task_data_def)
  from submit_result_repeated
         [OF v a, of "''p1-http''" "[(''status'', ''success'')]" "[(''status'', ''retry'')]"]
  obtain s1 s2 where
    r: "submit_result example_server ''p1-http'' ''agent-ru-0a1b2c3d'' ''s3cr3t''
          [(''status'', ''success'')] = Inr (s1, StatusOnly ''success'')"
       "submit_result s1 ''p1-http'' ''agent-ru-0a1b2c3d'' ''s3cr3t''
          [(''status'', ''retry'')] = Inr (s2, StatusOnly ''success'')"
       "map_of (task_results s1) ''p1-http'' = Some [(''status'', ''success'')]"
       "map_of (task_results s2) ''p1-http'' = Some [(''status'', ''retry'')]"
       "tasks_queue s2 = tasks_queue s1"
       "get_agent s1 ''agent-ru-0a1b2c3d'' =
          Some (example_agent\<lparr>a_current_tasks := max 0 (a_current_tasks example_agent - 1)\<rparr>)"
       "get_agent s2 ''agent-ru-0a1b2c3d'' =
          Some (example_agent\<lparr>a_current_tasks := max 0 (a_current_tasks example_agent - 2)\<rparr>)"
    and u: "\<forall>j. j < length (tasks_queue example_server) \<and>
                t_id (tasks_queue example_server ! j) = ''p1-http'' \<and>
                (\<forall>k<j. t_id (tasks_queue example_server ! k) \<noteq> ''p1-http'') \<longrightarrow>
              tasks_queue s1 =
                (tasks_queue example_server)
                  [j := (tasks_queue example_server ! j)\<lparr>t_status := ''completed''\<rparr>]"
    by (elim exE conjE)
  from u [rule_format, OF first]
  have "map t_status (tasks_queue s1) = [''pending'', ''completed'', ''pending'']"
    by (simp only: st)
  then show ?thesis using v a c r by (intro conjI exI [of _ s1] exI [of _ s2]) simp_all
qed

section \<open>The status of a sub-task\<close>


lemma step_ids [simp]:
  "map t_id (tasks_queue (step s e)) = map t_id (tasks_queue s)"
  by (cases e)
     (auto simp: get_pending_task_def submit_result_def Let_def
           split: if_splits option.splits sum.splits)

lemma run_ids [simp]:
  "map t_id (tasks_queue (run s es)) = map t_id (tasks_queue s)"
  by (induction es arbitrary: s) auto

lemma length_step [simp]: "length (tasks_queue (step s e)) = length (tasks_queue s)"
  using step_ids [of s e] by (metis length_map)

lemma length_run [simp]: "length (tasks_queue (run s es)) = length (tasks_queue s)"
  using run_ids [of s es] by (metis length_map)


















section \<open>Task creation fans out over the catalog\<close>

lemma sub_task_id_inj [simp]:
  "(sub_task_id p c = sub_task_id p c') = (c = c')"
  by (simp add: sub_task_id_def)

lemma redis_get_set [simp]:
  "redis_get (redis_set r k v) k' = (if k' = k then Some v else redis_get r k')"
  by (simp add: redis_get_def redis_set_def update_conv')

lemma redis_get_lpush [simp]: "redis_get (lpush r k x) k' = redis_get r k'"
  by (simp add: redis_get_def lpush_def)

lemma lrange_set [simp]: "lrange (redis_set r k v) k' = lrange r k'"
  by (simp add: lrange_def redis_set_def)

lemma lrange_lpush [simp]:
  "lrange (lpush r k x) k' = (if k' = k then x # lrange r k else lrange r k')"
  by (simp add: lrange_def lpush_def update_conv')

lemma fan_out_sub_tasks:
  "fst (snd (fan_out p tg c n cts (r, subs, sent))) = subs @ map (sub_task_id p) cts"
  by (induction cts arbitrary: r subs sent) (simp_all add: Let_def sub_task_data_def)

lemma fan_out_sent:
  "snd (snd (fan_out p tg c n cts (r, subs, sent))) = sent @ map (sub_task_data p tg c n) cts"
  by (induction cts arbitrary: r subs sent) (simp_all add: Let_def)

lemma t_id_sub_task_data [simp]: "t_id (sub_task_data p tg c n ct) = sub_task_id p ct"
  by (simp add: sub_task_data_def)

lemma fan_out_stored:
  "redis_get (fst (fan_out p tg c n cts (r, subs, sent))) (''task:'' @ sub_task_id p ct) =
     (if ct \<in> set cts then Some (sub_task_data p tg c n ct)
      else redis_get r (''task:'' @ sub_task_id p ct))"
  by (induction cts arbitrary: r subs sent) (auto simp: Let_def)

lemma fan_out_queue:
  "lrange (fst (fan_out p tg c n cts (r, subs, sent))) (''queue:'' @ c) =
     rev (map (sub_task_id p) cts) @ lrange r (''queue:'' @ c)"
  by (induction cts arbitrary: r subs sent) (simp_all add: Let_def)

lemma takeWhile_until:
  "a \<notin> set xs \<Longrightarrow> takeWhile (\<lambda>x. x \<noteq> a) (xs @ a # ys) = xs"
  by (induction xs) auto

lemma dash_split:
  assumes "CHR ''-'' \<notin> set c" "CHR ''-'' \<notin> set c'" "p @ ''-'' @ c = p' @ ''-'' @ c'"
  shows "p = p' \<and> c = c'"
proof -
  from assms(3) have "rev (p @ ''-'' @ c) = rev (p' @ ''-'' @ c')" by simp
  then have e: "rev c @ CHR ''-'' # rev p = rev c' @ CHR ''-'' # rev p'" by simp
  have "takeWhile (\<lambda>x. x \<noteq> CHR ''-'') (rev c @ CHR ''-'' # rev p) = rev c"
    using assms(1) by (simp add: takeWhile_until)
  moreover have "takeWhile (\<lambda>x. x \<noteq> CHR ''-'') (rev c' @ CHR ''-'' # rev p') = rev c'"
    using assms(2) by (simp add: takeWhile_until)
  ultimately have "rev c = rev c'" using e by simp
  then have "c = c'" by simp
  with assms(3) show ?thesis by simp
qed

lemma no_dash_in_check_types:
  "check_type \<in> set all_check_types \<Longrightarrow> CHR ''-'' \<notin> set check_type"
  by (auto simp: all_check_types_def)

lemma sub_task_id_collision_free:
  "c \<in> set all_check_types \<Longrightarrow> c' \<in> set all_check_types \<Longrightarrow>
     sub_task_id p c = sub_task_id p' c' \<Longrightarrow> p = p' \<and> c = c'"
  unfolding sub_task_id_def
  by (rule dash_split) (simp_all add: no_dash_in_check_types)

lemma distinct_sub_task_ids:
  "distinct cts \<Longrightarrow> distinct (map (sub_task_id p) cts)"
  by (simp add: distinct_map inj_on_def)

lemma distinct_all_check_types: "distinct all_check_types"
  by (simp add: all_check_types_def)

lemma length_all_check_types: "length all_check_types = 10"
  by (simp add: all_check_types_def)

lemma configured_country:
  "country = ''auto'' \<or> country \<in> set (map fst AGENT_SERVERS) \<Longrightarrow>
     (if country = ''auto'' then secrets_choice rnd (map fst AGENT_SERVERS) else country) = ''ru''"
  by (auto simp: AGENT_SERVERS_def secrets_choice_def)

text \<open>
  C1. \<open>create_task\<close> for a configured country, or for \<open>auto\<close>, returns the parent
  id and the list of the ten sub-task ids, one per check type of the catalog and in
  catalog order. Each sub-task id is the parent id, a dash and the check type; the
  ten are distinct. Each sub-task is stored under \<open>task:<id>\<close> with
  \<open>parent_task_id\<close> the parent id, its check type and status pending. The ids are
  pushed on \<open>queue:<country>\<close> (at the head, so the queue reads them in reverse).
  One sub-task per check type is posted to the agent server of the country.
\<close>

theorem create_task_fan_out:
  assumes "country = ''auto'' \<or> country \<in> set (map fst AGENT_SERVERS)"
  shows "\<exists>r' resp sent.
           create_task r uuid rnd now_at target country = Inr (r', resp, sent) \<and>
           cr_task_id resp = uuid \<and>
           cr_country resp \<in> set (map fst AGENT_SERVERS) \<and>
           (country \<noteq> ''auto'' \<longrightarrow> cr_country resp = country) \<and>
           cr_sub_tasks resp = map (\<lambda>check_type. uuid @ ''-'' @ check_type) all_check_types \<and>
           length (cr_sub_tasks resp) = 10 \<and>
           distinct (cr_sub_tasks resp) \<and>
           (\<forall>check_type \<in> set all_check_types.
              redis_get r' (''task:'' @ uuid @ ''-'' @ check_type) =
                Some \<lparr>t_id = uuid @ ''-'' @ check_type,
                      t_parent_task_id = Some uuid,
                      t_target = target,
                      t_check_type = check_type,
                      t_country = cr_country resp,
                      t_status = ''pending'',
                      t_created_at = now_at check_type,
                      t_assigned_agent = None,
                      t_result = None,
                      t_agent_server = cr_country resp\<rparr>) \<and>
           lrange r' (''queue:'' @ cr_country resp) =
             rev (cr_sub_tasks resp) @ lrange r (''queue:'' @ cr_country resp) \<and>
           map t_id sent = cr_sub_tasks resp \<and>
           map t_check_type sent = all_check_types"
proof -
  let ?country = "if country = ''auto'' then secrets_choice rnd (map fst AGENT_SERVERS) else country"
  have c: "?country = ''ru''"
    using assms by (rule configured_country)
  obtain r' subs sent where f:
    "fan_out uuid target ''ru'' now_at all_check_types (r, [], []) = (r', subs, sent)"
    by (cases "fan_out uuid target ''ru'' now_at all_check_types (r, [], [])") auto
  from fan_out_sub_tasks [of uuid target "''ru''" now_at all_check_types r "[]" "[]"] f
  have subs: "subs = map (sub_task_id uuid) all_check_types" by simp
  from fan_out_sent [of uuid target "''ru''" now_at all_check_types r "[]" "[]"] f
  have sent: "sent = map (sub_task_data uuid target ''ru'' now_at) all_check_types" by simp
  have stored: "redis_get r' (''task:'' @ sub_task_id uuid ct) =
                  Some (sub_task_data uuid target ''ru'' now_at ct)"
    if "ct \<in> set all_check_types" for ct
    using fan_out_stored [of uuid target "''ru''" now_at all_check_types r "[]" "[]" ct] f that
    by simp
  from fan_out_queue [of uuid target "''ru''" now_at all_check_types r "[]" "[]"] f
  have queue: "lrange r' (''queue:'' @ ''ru'') = rev subs @ lrange r (''queue:'' @ ''ru'')"
    by (simp add: subs)
  define resp where "resp = \<lparr>cr_status = ''success'', cr_task_id = uuid, cr_target = target,
      cr_country = ''ru'', cr_check_types = all_check_types, cr_sub_tasks = subs,
      cr_agent_server = ''http://localhost:8001''\<rparr>"
  have ct: "create_task r uuid rnd now_at target country = Inr (r', resp, sent)"
    unfolding create_task_def Let_def c
    by (simp add: AGENT_SERVERS_def f resp_def)
  have "cr_task_id resp = uuid" by (simp add: resp_def)
  moreover have "cr_country resp \<in> set (map fst AGENT_SERVERS)"
    by (simp add: resp_def AGENT_SERVERS_def)
  moreover have "country \<noteq> ''auto'' \<longrightarrow> cr_country resp = country"
    using c by (auto simp: resp_def)
  moreover have "cr_sub_tasks resp = map (\<lambda>check_type. uuid @ ''-'' @ check_type) all_check_types"
    by (simp add: resp_def subs sub_task_id_def)
  moreover have "length (cr_sub_tasks resp) = 10"
    by (simp add: resp_def subs length_all_check_types)
  moreover have "distinct (cr_sub_tasks resp)"
    by (simp add: resp_def subs distinct_sub_task_ids distinct_all_check_types)
  moreover have "\<forall>check_type \<in> set all_check_types.
              redis_get r' (''task:'' @ uuid @ ''-'' @ check_type) =
                Some \<lparr>t_id = uuid @ ''-'' @ check_type,
                      t_parent_task_id = Some uuid,
                      t_target = target,
                      t_check_type = check_type,
                      t_country = cr_country resp,
                      t_status = ''pending'',
                      t_created_at = now_at check_type,
                      t_assigned_agent = None,
                      t_result = None,
                      t_agent_server = cr_country resp\<rparr>"
    using stored by (simp add: resp_def sub_task_data_def sub_task_id_def)
  moreover have "lrange r' (''queue:'' @ cr_country resp) =
             rev (cr_sub_tasks resp) @ lrange r (''queue:'' @ cr_country resp)"
    using queue by (simp add: resp_def)
  moreover have "map t_id sent = cr_sub_tasks resp"
    by (simp add: resp_def subs sent comp_def)
  moreover have "map t_check_type sent = all_check_types"
    by (simp add: sent comp_def sub_task_data_def)
  ultimately show ?thesis using ct by blast
qed


theorem create_task_fan_out_witness:
  "''ru'' \<in> set (map fst AGENT_SERVERS) \<and>
   (\<exists>r' resp sent.
      create_task empty_redis example_uuid 0 (\<lambda>c. 0) ''example.com'' ''ru''
        = Inr (r', resp, sent) \<and>
      cr_task_id resp = example_uuid \<and>
      cr_country resp = ''ru'' \<and>
      cr_sub_tasks resp =
        [example_uuid @ ''-http'', example_uuid @ ''-https'', example_uuid @ ''-ping'',
         example_uuid @ ''-tcp'', example_uuid @ ''-traceroute'', example_uuid @ ''-dns_a'',
         example_uuid @ ''-dns_aaaa'', example_uuid @ ''-dns_mx'', example_uuid @ ''-dns_ns'',
         example_uuid @ ''-dns_txt''] \<and>
      redis_get r' (''task:'' @ example_uuid @ ''-ping'') =
        Some \<lparr>t_id = example_uuid @ ''-ping'', t_parent_task_id = Some example_uuid,
              t_target = ''example.com'', t_check_type = ''ping'', t_country = ''ru'',
              t_status = ''pending'', t_created_at = 0, t_assigned_agent = None,
              t_result = None, t_agent_server = ''ru''\<rparr> \<and>
      lrange r' ''queue:ru'' = rev (cr_sub_tasks resp) \<and>
      map t_id sent = cr_sub_tasks resp)"
proof -
  have h: "''ru'' = ''auto'' \<or> ''ru'' \<in> set (map fst AGENT_SERVERS)"
    by (simp add: AGENT_SERVERS_def)
  have m: "''ping'' \<in> set all_check_types"
    by (simp add: all_check_types_def)
  have e: "lrange empty_redis (''queue:'' @ ''ru'') = []"
    by (simp add: lrange_def empty_redis_def)
  from create_task_fan_out [OF h, of empty_redis example_uuid 0 "\<lambda>c. 0" "''example.com''"]
  obtain r' resp sent where
    c: "create_task empty_redis example_uuid 0 (\<lambda>c. 0) ''example.com'' ''ru''
          = Inr (r', resp, sent)"
    and i: "cr_task_id resp = example_uuid"
    and k: "cr_country resp = ''ru''"
    and s: "cr_sub_tasks resp = map (\<lambda>check_type. example_uuid @ ''-'' @ check_type) all_check_types"
    and g: "\<forall>check_type \<in> set all_check_types.
              redis_get r' (''task:'' @ example_uuid @ ''-'' @ check_type) =
                Some \<lparr>t_id = example_uuid @ ''-'' @ check_type,
                      t_parent_task_id = Some example_uuid,
                      t_target = ''example.com'',
                      t_check_type = check_type,
                      t_country = cr_country resp,
                      t_status = ''pending'',
                      t_created_at = 0,
                      t_assigned_agent = None,
                      t_result = None,
                      t_agent_server = cr_country resp\<rparr>"
    and q: "lrange r' (''queue:'' @ cr_country resp) =
             rev (cr_sub_tasks resp) @ lrange empty_redis (''queue:'' @ cr_country resp)"
    and t: "map t_id sent = cr_sub_tasks resp"
    by auto
  from g m k have p: "redis_get r' (''task:'' @ example_uuid @ ''-ping'') =
        Some \<lparr>t_id = example_uuid @ ''-ping'', t_parent_task_id = Some example_uuid,
              t_target = ''example.com'', t_check_type = ''ping'', t_country = ''ru'',
              t_status = ''pending'', t_created_at = 0, t_assigned_agent = None,
              t_result = None, t_agent_server = ''ru''\<rparr>"
    by auto
  from q k e have q': "lrange r' ''queue:ru'' = rev (cr_sub_tasks resp)"
    by simp
  have s': "cr_sub_tasks resp =
        [example_uuid @ ''-http'', example_uuid @ ''-https'', example_uuid @ ''-ping'',
         example_uuid @ ''-tcp'', example_uuid @ ''-traceroute'', example_uuid @ ''-dns_a'',
         example_uuid @ ''-dns_aaaa'', example_uuid @ ''-dns_mx'', example_uuid @ ''-dns_ns'',
         example_uuid @ ''-dns_txt'']"
    by (simp add: s all_check_types_def)
  from c i k s' p q' t h show ?thesis
    by (simp add: AGENT_SERVERS_def)
qed

section \<open>Polling: first match in queue order\<close>






section \<open>Aggregated status of a parent task\<close>

lemma dict_get_update:
  "dict_get (AList.update k v d) k' dflt = (if k' = k then v else dict_get d k' dflt)"
  by (simp add: dict_get_def update_conv')

lemma sum_update_count:
  "sum_list (map snd (AList.update k (dict_get d k 0 + n) d)) = sum_list (map snd d) + n"
proof (induction d)
  case Nil
  then show ?case by (simp add: dict_get_def)
next
  case (Cons p d)
  obtain k' v where p: "p = (k', v)" by (cases p)
  show ?case
  proof (cases "k' = k")
    case True
    with p show ?thesis by (simp add: dict_get_def)
  next
    case False
    then have "dict_get (p # d) k 0 = dict_get d k 0"
      using p by (simp add: dict_get_def)
    with False p Cons.IH show ?thesis by simp
  qed
qed

lemma sum_count_statuses:
  "sum_list (map snd (count_statuses d ts)) = sum_list (map snd d) + length ts"
proof (induction ts arbitrary: d)
  case Nil
  then show ?case by simp
next
  case (Cons t ts)
  have "sum_list (map snd (count_statuses d (t # ts))) =
        sum_list (map snd (AList.update (t_status t) (dict_get d (t_status t) 0 + 1) d)) +
        length ts"
    by (simp only: count_statuses.simps Cons.IH)
  also have "\<dots> = sum_list (map snd d) + 1 + length ts"
    by (simp only: sum_update_count)
  finally show ?case by simp
qed

lemma dict_get_count_statuses:
  "dict_get (count_statuses d ts) st 0 =
     dict_get d st 0 + length (filter (\<lambda>t. t_status t = st) ts)"
proof (induction ts arbitrary: d)
  case Nil
  then show ?case by simp
next
  case (Cons t ts)
  have "dict_get (count_statuses d (t # ts)) st 0 =
        dict_get (AList.update (t_status t) (dict_get d (t_status t) 0 + 1) d) st 0 +
        length (filter (\<lambda>t. t_status t = st) ts)"
    by (simp only: count_statuses.simps Cons.IH)
  also have "\<dots> = dict_get d st 0 + length (filter (\<lambda>t. t_status t = st) (t # ts))"
    by (simp add: dict_get_update)
  finally show ?case .
qed

lemma length_filter_all:
  "(length (filter P xs) = length xs) = (\<forall>x\<in>set xs. P x)"
proof
  assume l: "length (filter P xs) = length xs"
  show "\<forall>x\<in>set xs. P x"
  proof (rule ccontr)
    assume "\<not> (\<forall>x\<in>set xs. P x)"
    then obtain x where "x \<in> set xs" "\<not> P x" by blast
    then have "length (filter P xs) < length xs" by (rule length_filter_less)
    with l show False by simp
  qed
next
  assume "\<forall>x\<in>set xs. P x"
  then show "length (filter P xs) = length xs" by simp
qed


lemma collect_sub_tasks_scan:
  "collect_sub_tasks r task_id keys =
     List.map_filter
       (\<lambda>key. if startswith (replace_task key) (task_id @ ''-'')
              then get_task r (replace_task key) else None) keys"
  by (induction keys) (simp_all add: List.map_filter_simps Let_def split: option.splits)

lemma get_task_status_404:
  "collect_sub_tasks r task_id (scan_iter_task r) = [] \<Longrightarrow> get_task r task_id = None \<Longrightarrow>
     get_task_status r task_id = Inl (HTTPException 404 ''Task not found'')"
  by (simp add: get_task_status_def)

lemma get_task_status_main:
  "collect_sub_tasks r task_id (scan_iter_task r) = [] \<Longrightarrow>
   get_task r task_id = Some main_task \<Longrightarrow>
     get_task_status r task_id =
       Inr \<lparr>sr_parent_task_id = task_id,
            sr_target = Some (t_target main_task),
            sr_country = Some (t_country main_task),
            sr_status_summary = [(t_status main_task, 1)],
            sr_completed = (t_status main_task = ''completed''),
            sr_total_checks = None,
            sr_checks = [main_task]\<rparr>"
  by (simp add: get_task_status_def)

lemma get_task_status_sub_tasks:
  "collect_sub_tasks r task_id (scan_iter_task r) \<noteq> [] \<Longrightarrow>
     get_task_status r task_id =
       Inr \<lparr>sr_parent_task_id = task_id,
            sr_target = Some (t_target (hd (collect_sub_tasks r task_id (scan_iter_task r)))),
            sr_country = Some (t_country (hd (collect_sub_tasks r task_id (scan_iter_task r)))),
            sr_status_summary =
              count_statuses [] (collect_sub_tasks r task_id (scan_iter_task r)),
            sr_completed =
              (dict_get (count_statuses [] (collect_sub_tasks r task_id (scan_iter_task r)))
                 ''completed'' 0 =
               length (collect_sub_tasks r task_id (scan_iter_task r))),
            sr_total_checks = Some (length (collect_sub_tasks r task_id (scan_iter_task r))),
            sr_checks = collect_sub_tasks r task_id (scan_iter_task r)\<rparr>"
  by (simp add: get_task_status_def Let_def)

lemma count_statuses_aggregate:
  "sum_list (map snd (count_statuses [] ts)) = length ts \<and>
   (\<forall>st. dict_get (count_statuses [] ts) st 0 = length (filter (\<lambda>t. t_status t = st) ts)) \<and>
   ((dict_get (count_statuses [] ts) ''completed'' 0 = length ts) =
      (\<forall>t\<in>set ts. t_status t = ''completed''))"
proof -
  have e: "\<And>st. dict_get [] st 0 = 0"
    by (simp add: dict_get_def)
  show ?thesis
    by (simp add: sum_count_statuses dict_get_count_statuses e length_filter_all)
qed

text \<open>
  C5. \<open>get_task_status\<close> collects, in scan order, the stored tasks of the keys
  \<open>task:*\<close> whose id begins with the parent id and a dash; with none found it falls
  back to the task stored under the id itself. Its response exists exactly when one
  of the two finds something, and otherwise the call raises 404 \<open>Task not found\<close>.
  In every response the checks are the tasks found, the counts of
  \<open>status_summary\<close> sum to their number, each status is counted as often as it
  occurs among them, and \<open>completed\<close> is true exactly when the count of
  \<open>completed\<close> equals their number, that is when every one of them is completed.
\<close>

theorem get_task_status_aggregate:
  "collect_sub_tasks r task_id (scan_iter_task r) =
     List.map_filter
       (\<lambda>key. if startswith (replace_task key) (task_id @ ''-'')
              then get_task r (replace_task key) else None) (scan_iter_task r) \<and>
   (\<forall>resp. get_task_status r task_id = Inr resp \<longrightarrow>
      sr_checks resp =
        (if collect_sub_tasks r task_id (scan_iter_task r) = []
         then (case get_task r task_id of None \<Rightarrow> [] | Some main_task \<Rightarrow> [main_task])
         else collect_sub_tasks r task_id (scan_iter_task r)) \<and>
      sr_checks resp \<noteq> [] \<and>
      sum_list (map snd (sr_status_summary resp)) = length (sr_checks resp) \<and>
      (\<forall>st. dict_get (sr_status_summary resp) st 0 =
             length (filter (\<lambda>t. t_status t = st) (sr_checks resp))) \<and>
      sr_completed resp =
        (dict_get (sr_status_summary resp) ''completed'' 0 = length (sr_checks resp)) \<and>
      sr_completed resp = (\<forall>t\<in>set (sr_checks resp). t_status t = ''completed'')) \<and>
   ((\<exists>resp. get_task_status r task_id = Inr resp) =
      (collect_sub_tasks r task_id (scan_iter_task r) \<noteq> [] \<or> get_task r task_id \<noteq> None)) \<and>
   (collect_sub_tasks r task_id (scan_iter_task r) = [] \<and> get_task r task_id = None \<longrightarrow>
      get_task_status r task_id = Inl (HTTPException 404 ''Task not found''))"
proof -
  let ?subs = "collect_sub_tasks r task_id (scan_iter_task r)"
  have scan: "?subs =
     List.map_filter
       (\<lambda>key. if startswith (replace_task key) (task_id @ ''-'')
              then get_task r (replace_task key) else None) (scan_iter_task r)"
    by (rule collect_sub_tasks_scan)
  have nf: "?subs = [] \<and> get_task r task_id = None \<longrightarrow>
      get_task_status r task_id = Inl (HTTPException 404 ''Task not found'')"
    by (simp add: get_task_status_404)
  have ex: "(\<exists>resp. get_task_status r task_id = Inr resp) =
      (?subs \<noteq> [] \<or> get_task r task_id \<noteq> None)"
  proof (cases "?subs = []")
    case True
    then show ?thesis
      by (cases "get_task r task_id") (simp_all add: get_task_status_404 get_task_status_main)
  next
    case False
    then show ?thesis by (simp add: get_task_status_sub_tasks)
  qed
  have agg: "\<forall>resp. get_task_status r task_id = Inr resp \<longrightarrow>
      sr_checks resp =
        (if ?subs = []
         then (case get_task r task_id of None \<Rightarrow> [] | Some main_task \<Rightarrow> [main_task])
         else ?subs) \<and>
      sr_checks resp \<noteq> [] \<and>
      sum_list (map snd (sr_status_summary resp)) = length (sr_checks resp) \<and>
      (\<forall>st. dict_get (sr_status_summary resp) st 0 =
             length (filter (\<lambda>t. t_status t = st) (sr_checks resp))) \<and>
      sr_completed resp =
        (dict_get (sr_status_summary resp) ''completed'' 0 = length (sr_checks resp)) \<and>
      sr_completed resp = (\<forall>t\<in>set (sr_checks resp). t_status t = ''completed'')"
  proof (intro allI impI)
    fix resp assume g: "get_task_status r task_id = Inr resp"
    show "sr_checks resp =
        (if ?subs = []
         then (case get_task r task_id of None \<Rightarrow> [] | Some main_task \<Rightarrow> [main_task])
         else ?subs) \<and>
      sr_checks resp \<noteq> [] \<and>
      sum_list (map snd (sr_status_summary resp)) = length (sr_checks resp) \<and>
      (\<forall>st. dict_get (sr_status_summary resp) st 0 =
             length (filter (\<lambda>t. t_status t = st) (sr_checks resp))) \<and>
      sr_completed resp =
        (dict_get (sr_status_summary resp) ''completed'' 0 = length (sr_checks resp)) \<and>
      sr_completed resp = (\<forall>t\<in>set (sr_checks resp). t_status t = ''completed'')"
    proof (cases "?subs = []")
      case True
      show ?thesis
      proof (cases "get_task r task_id")
        case None
        with True g show ?thesis by (simp add: get_task_status_404)
      next
        case (Some main_task)
        from get_task_status_main [OF True Some] g
        have "resp = \<lparr>sr_parent_task_id = task_id,
            sr_target = Some (t_target main_task),
            sr_country = Some (t_country main_task),
            sr_status_summary = [(t_status main_task, 1)],
            sr_completed = (t_status main_task = ''completed''),
            sr_total_checks = None,
            sr_checks = [main_task]\<rparr>"
          by simp
        with True Some show ?thesis by (simp add: dict_get_def)
      qed
    next
      case False
      from get_task_status_sub_tasks [OF False] g
      have "sr_checks resp = ?subs" "sr_status_summary resp = count_statuses [] ?subs"
        "sr_completed resp = (dict_get (count_statuses [] ?subs) ''completed'' 0 = length ?subs)"
        by auto
      with False count_statuses_aggregate [of ?subs] show ?thesis
        by (simp add: length_filter_all)
    qed
  qed
  from scan agg ex nf show ?thesis by (intro conjI)
qed


theorem get_task_status_aggregate_witness:
  "collect_sub_tasks example_redis ''p9'' (scan_iter_task example_redis) = [] \<and>
   get_task example_redis ''p9'' = None \<and>
   get_task_status example_redis ''p9'' = Inl (HTTPException 404 ''Task not found'') \<and>
   (\<exists>resp. get_task_status example_redis ''p1'' = Inr resp \<and>
      map t_id (sr_checks resp) = [''p1-http'', ''p1-ping''] \<and>
      map t_status (sr_checks resp) = [''completed'', ''pending''] \<and>
      sum_list (map snd (sr_status_summary resp)) = 2 \<and>
      dict_get (sr_status_summary resp) ''completed'' 0 = 1 \<and>
      dict_get (sr_status_summary resp) ''pending'' 0 = 1 \<and>
      \<not> sr_completed resp)"
proof -
  have keys: "scan_iter_task example_redis = [''task:p1-http'', ''task:p1-ping'', ''task:p2-http'']"
    by (simp add: scan_iter_task_def example_redis_def startswith_def)
  have rep: "replace_task ''task:p1-http'' = ''p1-http''"
    "replace_task ''task:p1-ping'' = ''p1-ping''"
    "replace_task ''task:p2-http'' = ''p2-http''"
    by (simp_all add: startswith_def)
  have c9: "collect_sub_tasks example_redis ''p9'' (scan_iter_task example_redis) = []"
    by (simp add: keys rep startswith_def)
  have g9: "get_task example_redis ''p9'' = None"
    by (simp add: get_task_def redis_get_def example_redis_def)
  have g1: "get_task example_redis ''p1-http'' =
      Some ((sub_task_data ''p1'' ''example.com'' ''ru'' (\<lambda>c. 0) ''http'')
         \<lparr>t_status := ''completed''\<rparr>)"
    "get_task example_redis ''p1-ping'' =
      Some (sub_task_data ''p1'' ''example.com'' ''ru'' (\<lambda>c. 0) ''ping'')"
    by (simp_all add: get_task_def redis_get_def example_redis_def)
  have c1: "collect_sub_tasks example_redis ''p1'' (scan_iter_task example_redis) =
      [(sub_task_data ''p1'' ''example.com'' ''ru'' (\<lambda>c. 0) ''http'')
         \<lparr>t_status := ''completed''\<rparr>,
       sub_task_data ''p1'' ''example.com'' ''ru'' (\<lambda>c. 0) ''ping'']"
    by (simp add: keys rep startswith_def g1)
  note t9 = get_task_status_aggregate [of example_redis "''p9''"]
  note t1 = get_task_status_aggregate [of example_redis "''p1''"]
  have n: "get_task_status example_redis ''p9'' = Inl (HTTPException 404 ''Task not found'')"
    by (rule t9 [THEN conjunct2, THEN conjunct2, THEN conjunct2, THEN mp]) (intro conjI c9 g9)
  have "\<exists>resp. get_task_status example_redis ''p1'' = Inr resp"
    using t1 [THEN conjunct2, THEN conjunct2, THEN conjunct1] by (simp add: c1)
  then obtain resp where r: "get_task_status example_redis ''p1'' = Inr resp" ..
  note a = t1 [THEN conjunct2, THEN conjunct1, THEN spec, THEN mp, OF r]
  have ch: "sr_checks resp =
      [(sub_task_data ''p1'' ''example.com'' ''ru'' (\<lambda>c. 0) ''http'')
         \<lparr>t_status := ''completed''\<rparr>,
       sub_task_data ''p1'' ''example.com'' ''ru'' (\<lambda>c. 0) ''ping'']"
    using a [THEN conjunct1] by (simp add: c1)
  have ids: "map t_id (sr_checks resp) = [''p1-http'', ''p1-ping'']"
    by (simp add: ch sub_task_data_def sub_task_id_def)
  have sts: "map t_status (sr_checks resp) = [''completed'', ''pending'']"
    by (simp add: ch sub_task_data_def)
  have sum: "sum_list (map snd (sr_status_summary resp)) = 2"
    using a [THEN conjunct2, THEN conjunct2, THEN conjunct1] by (simp add: ch)
  note cnt = a [THEN conjunct2, THEN conjunct2, THEN conjunct2, THEN conjunct1, THEN spec]
  have cc: "dict_get (sr_status_summary resp) ''completed'' 0 = 1"
    using cnt [of "''completed''"] by (simp add: ch sub_task_data_def)
  have cp: "dict_get (sr_status_summary resp) ''pending'' 0 = 1"
    using cnt [of "''pending''"] by (simp add: ch sub_task_data_def)
  have nc: "\<not> sr_completed resp"
    using a [THEN conjunct2, THEN conjunct2, THEN conjunct2, THEN conjunct2, THEN conjunct2]
    by (simp add: ch sub_task_data_def)
  from r ids sts sum cc cp nc
  have "\<exists>resp. get_task_status example_redis ''p1'' = Inr resp \<and>
      map t_id (sr_checks resp) = [''p1-http'', ''p1-ping''] \<and>
      map t_status (sr_checks resp) = [''completed'', ''pending''] \<and>
      sum_list (map snd (sr_status_summary resp)) = 2 \<and>
      dict_get (sr_status_summary resp) ''completed'' 0 = 1 \<and>
      dict_get (sr_status_summary resp) ''pending'' 0 = 1 \<and>
      \<not> sr_completed resp"
    by (intro exI [of _ resp] conjI)
  with c9 g9 n show ?thesis by (intro conjI)
qed

end
